theory Spec2Isabelle
  imports Main
begin

section \<open>Python values\<close>

text \<open>
  A Python \<open>str\<close> is the list of its characters and \<open>len\<close> is the length of that
  list; a Python \<open>int\<close> is unbounded. A \<open>datetime\<close> is the number of microseconds
  since the epoch, the resolution of \<open>datetime.utcnow()\<close>.
\<close>

type_synonym datetime = int

text \<open>\<open>str(n)\<close>, as the f-strings of the source format an int.\<close>

fun str_nat :: "nat \<Rightarrow> string" where
  "str_nat n =
     (if n < 10 then [''0123456789'' ! n]
      else str_nat (n div 10) @ [''0123456789'' ! (n mod 10)])"

declare str_nat.simps [simp del]

definition str_int :: "int \<Rightarrow> string" where
  "str_int i = (if i < 0 then CHR ''-'' # str_nat (nat (- i)) else str_nat (nat i))"

text \<open>
  A field of a JSON body or of a pydantic model that remembers whether it was given:
  \<open>Unset\<close> is an absent key (the field is not in \<open>model_fields_set\<close>), \<open>Provided v\<close> a
  present one. For an \<open>Optional\<close> field \<open>v\<close> is itself an option, \<open>Provided None\<close>
  being an explicit \<open>null\<close>.
\<close>

datatype 'a field = Unset | Provided 'a

datatype jval = JNull | JStr string | JInt int

section \<open>Exceptions (utils/exceptions.py, httpx, fastapi)\<close>

text \<open>
  \<open>ExternalAPIException message status_code\<close> is the class of utils/exceptions.py.
  \<open>TimeoutException\<close> is \<open>httpx.TimeoutException\<close>; \<open>RequestError\<close> stands for every
  other \<open>httpx.RequestError\<close>; \<open>HTTPException status_code detail\<close> is fastapi's;
  \<open>Exception\<close> stands for every other subclass of \<open>Exception\<close>. Each carries its
  message, which is what \<open>str(e)\<close> returns.
\<close>

datatype exn =
    ExternalAPIException string "int option"
  | TimeoutException string
  | RequestError string
  | HTTPException int string
  | TypeError string
  | Exception string

fun str_exn :: "exn \<Rightarrow> string" where
  "str_exn (ExternalAPIException message status_code) = message"
| "str_exn (TimeoutException m) = m"
| "str_exn (RequestError m) = m"
| "str_exn (HTTPException status_code detail) = str_int status_code @ '': '' @ detail"
| "str_exn (TypeError m) = m"
| "str_exn (Exception m) = m"

section \<open>The enrichment client (utils/external_api.py)\<close>

text \<open>
  What \<open>await client.get(url)\<close> does is given by the remote service: it returns a
  response or raises. Of a response the code reads \<open>status_code\<close>, \<open>text\<close> and
  \<open>json()\<close>; \<open>json\<close> is the outcome of \<open>response.json()\<close>: the exception it raises
  when the body is not JSON, or the parsed body, held in the rendering \<open>str()\<close> gives it
  (all that the caller uses).
\<close>

record Response =
  status_code :: int
  text_of :: string
  json :: "exn + string"

datatype upstream = Returns Response | Raises exn

text \<open>The timeout, at its default (the environment can override it).\<close>

definition EXTERNAL_API_TIMEOUT :: int where
  "EXTERNAL_API_TIMEOUT = 10"

text \<open>The \<open>try\<close> block of \<open>fetch_external_data\<close>.\<close>

definition fetch_external_data_try :: "int \<Rightarrow> upstream \<Rightarrow> exn + string" where
  "fetch_external_data_try external_id up =
     (case up of
        Raises e \<Rightarrow> Inl e
      | Returns response \<Rightarrow>
          if status_code response = 404 then
            Inl (ExternalAPIException
                   (''Resource with ID '' @ str_int external_id @ '' not found in external API'')
                   (Some 404))
          else if status_code response \<ge> 400 then
            Inl (ExternalAPIException
                   (''External API request failed with status '' @ str_int (status_code response)
                      @ '': '' @ text_of response)
                   (Some (status_code response)))
          else json response)"

text \<open>
  The \<open>except\<close> clauses, tried in the order of the source. The last one,
  \<open>except Exception\<close>, takes every exception the first two do not, among them the
  \<open>ExternalAPIException\<close>s raised inside the \<open>try\<close> block.
\<close>

definition fetch_external_data :: "int \<Rightarrow> upstream \<Rightarrow> exn + string" where
  "fetch_external_data external_id up =
     (case fetch_external_data_try external_id up of
        Inr d \<Rightarrow> Inr d
      | Inl (TimeoutException m) \<Rightarrow>
          Inl (ExternalAPIException
                 (''Request to external API timed out after '' @ str_int EXTERNAL_API_TIMEOUT
                    @ '' seconds'')
                 (Some 408))
      | Inl (RequestError m) \<Rightarrow>
          Inl (ExternalAPIException
                 (''Request error when connecting to external API: '' @ str_exn (RequestError m))
                 (Some 502))
      | Inl e \<Rightarrow>
          Inl (ExternalAPIException
                 (''Unexpected error when fetching data from external API: '' @ str_exn e)
                 (Some 500)))"

section \<open>The data model (models/task.py, schemas/task.py)\<close>

text \<open>
  The table model \<open>Task\<close>. \<open>title\<close>, \<open>status\<close> and \<open>priority\<close> are annotated \<open>str\<close>, but
  nothing validates an assignment to an attribute of a table model, so each attribute
  that \<open>update_task\<close> assigns can hold \<open>None\<close>; their columns are \<open>NOT NULL\<close>, which the
  database enforces at commit.
\<close>

record Task =
  title :: "string option"
  description :: "string option"
  status :: "string option"
  priority :: "string option"
  external_api_data :: "string option"
  id :: "int option"
  external_id :: "int option"
  user_id :: "string option"
  created_at :: datetime
  updated_at :: datetime
  completed_at :: "datetime option"

text \<open>The request schemas of schemas/task.py, as the handlers receive them (validated).\<close>

record TaskCreate =
  title :: string
  description :: "string option"
  status :: string
  priority :: string
  user_id :: "string option"
  external_id :: "int option"

record TaskUpdate =
  title :: "string option field"
  description :: "string option field"
  status :: "string option field"
  priority :: "string option field"
  user_id :: "string option field"

record TaskResponse =
  title :: string
  description :: "string option"
  status :: string
  priority :: string
  id :: int
  external_id :: "int option"
  user_id :: "string option"
  created_at :: datetime
  updated_at :: datetime
  completed_at :: "datetime option"

record TaskListResponse =
  tasks :: "TaskResponse list"
  total :: int
  page :: int
  size :: int

section \<open>Validation of request data (pydantic, over the schemas' \<open>Field\<close> constraints)\<close>

text \<open>
  One entry of \<open>exc.errors()\<close>: where the error is, its message, the rule violated and the
  offending input (the whole body when a required key is missing).
\<close>

datatype input_value = The_body | The_value jval

record ErrorDetails =
  loc :: "string list"
  msg :: string
  type :: string
  input :: input_value

text \<open>
  The JSON bodies of POST and PUT, after JSON parsing: for each key the schema declares,
  whether it is absent, \<open>null\<close> or a value of the annotated base type (values of another
  JSON type are outside the model), and in \<open>extra\<close> the keys the schema does not declare.
\<close>

record TaskCreate_body =
  title :: "string option field"
  description :: "string option field"
  status :: "string option field"
  priority :: "string option field"
  user_id :: "string option field"
  external_id :: "int option field"
  extra :: "(string \<times> jval) list"

record TaskUpdate_body =
  title :: "string option field"
  description :: "string option field"
  status :: "string option field"
  priority :: "string option field"
  user_id :: "string option field"
  extra :: "(string \<times> jval) list"

definition characters :: "nat \<Rightarrow> string" where
  "characters n = str_nat n @ (if n = 1 then '' character'' else '' characters'')"

text \<open>A \<open>str\<close> under \<open>min_length\<close> and \<open>max_length\<close> (\<open>min_length\<close> 0 when the field has none).\<close>

definition constrained_str :: "string \<Rightarrow> nat \<Rightarrow> nat \<Rightarrow> string \<Rightarrow> ErrorDetails + string" where
  "constrained_str name min_length max_length s =
     (if length s < min_length then
        Inl \<lparr>loc = [''body'', name],
             msg = ''String should have at least '' @ characters min_length,
             type = ''string_too_short'', input = The_value (JStr s)\<rparr>
      else if length s > max_length then
        Inl \<lparr>loc = [''body'', name],
             msg = ''String should have at most '' @ characters max_length,
             type = ''string_too_long'', input = The_value (JStr s)\<rparr>
      else Inr s)"

definition string_type :: "string \<Rightarrow> ErrorDetails" where
  "string_type name =
     \<lparr>loc = [''body'', name], msg = ''Input should be a valid string'',
      type = ''string_type'', input = The_value JNull\<rparr>"

definition missing :: "string \<Rightarrow> ErrorDetails" where
  "missing name =
     \<lparr>loc = [''body'', name], msg = ''Field required'', type = ''missing'', input = The_body\<rparr>"

text \<open>\<open>name: str = Field(..., min_length, max_length)\<close>: required, not nullable.\<close>

definition required_str ::
    "string \<Rightarrow> nat \<Rightarrow> nat \<Rightarrow> string option field \<Rightarrow> ErrorDetails + string" where
  "required_str name min_length max_length f =
     (case f of
        Unset \<Rightarrow> Inl (missing name)
      | Provided None \<Rightarrow> Inl (string_type name)
      | Provided (Some s) \<Rightarrow> constrained_str name min_length max_length s)"

text \<open>\<open>name: str = Field(default=d, max_length)\<close>: the default when absent, not nullable.\<close>

definition default_str ::
    "string \<Rightarrow> string \<Rightarrow> nat \<Rightarrow> string option field \<Rightarrow> ErrorDetails + string" where
  "default_str name d max_length f =
     (case f of
        Unset \<Rightarrow> Inr d
      | Provided None \<Rightarrow> Inl (string_type name)
      | Provided (Some s) \<Rightarrow> constrained_str name 0 max_length s)"

text \<open>
  \<open>name: Optional[str] = Field(default=None, min_length, max_length)\<close>: \<open>null\<close> is
  accepted as it is, and the result remembers whether the key was given.
\<close>

definition optional_str ::
    "string \<Rightarrow> nat \<Rightarrow> nat \<Rightarrow> string option field \<Rightarrow> ErrorDetails + string option field" where
  "optional_str name min_length max_length f =
     (case f of
        Unset \<Rightarrow> Inr Unset
      | Provided None \<Rightarrow> Inr (Provided None)
      | Provided (Some s) \<Rightarrow>
          (case constrained_str name min_length max_length s of
             Inl e \<Rightarrow> Inl e
           | Inr s' \<Rightarrow> Inr (Provided (Some s'))))"

definition or_default :: "'a \<Rightarrow> 'a field \<Rightarrow> 'a" where
  "or_default d f = (case f of Unset \<Rightarrow> d | Provided v \<Rightarrow> v)"

definition errors :: "ErrorDetails + 'a \<Rightarrow> ErrorDetails list" where
  "errors v = (case v of Inl e \<Rightarrow> [e] | Inr x \<Rightarrow> [])"

text \<open>
  Validation of a POST body against \<open>TaskCreate\<close> (schemas/task.py): every field is
  validated, in the order of declaration, and the errors of all of them are collected.
  Keys the schema does not declare are ignored (pydantic's default \<open>extra='ignore'\<close>).
\<close>

definition TaskCreate_errors :: "TaskCreate_body \<Rightarrow> ErrorDetails list" where
  "TaskCreate_errors body =
     errors (required_str ''title'' 1 255 (TaskCreate_body.title body))
     @ errors (optional_str ''description'' 0 1000 (TaskCreate_body.description body))
     @ errors (default_str ''status'' ''pending'' 50 (TaskCreate_body.status body))
     @ errors (default_str ''priority'' ''medium'' 20 (TaskCreate_body.priority body))
     @ errors (optional_str ''user_id'' 0 100 (TaskCreate_body.user_id body))"

definition TaskCreate_validate :: "TaskCreate_body \<Rightarrow> ErrorDetails list + TaskCreate" where
  "TaskCreate_validate body =
     (case (required_str ''title'' 1 255 (TaskCreate_body.title body),
            optional_str ''description'' 0 1000 (TaskCreate_body.description body),
            default_str ''status'' ''pending'' 50 (TaskCreate_body.status body),
            default_str ''priority'' ''medium'' 20 (TaskCreate_body.priority body),
            optional_str ''user_id'' 0 100 (TaskCreate_body.user_id body)) of
        (Inr t, Inr d, Inr s, Inr p, Inr u) \<Rightarrow>
          Inr \<lparr>TaskCreate.title = t, description = or_default None d, status = s,
               priority = p, user_id = or_default None u,
               external_id = or_default None (TaskCreate_body.external_id body)\<rparr>
      | _ \<Rightarrow> Inl (TaskCreate_errors body))"

text \<open>Validation of a PUT body against \<open>TaskUpdate\<close> (schemas/task.py).\<close>

definition TaskUpdate_errors :: "TaskUpdate_body \<Rightarrow> ErrorDetails list" where
  "TaskUpdate_errors body =
     errors (optional_str ''title'' 1 255 (TaskUpdate_body.title body))
     @ errors (optional_str ''description'' 0 1000 (TaskUpdate_body.description body))
     @ errors (optional_str ''status'' 0 50 (TaskUpdate_body.status body))
     @ errors (optional_str ''priority'' 0 20 (TaskUpdate_body.priority body))
     @ errors (optional_str ''user_id'' 0 100 (TaskUpdate_body.user_id body))"

definition TaskUpdate_validate :: "TaskUpdate_body \<Rightarrow> ErrorDetails list + TaskUpdate" where
  "TaskUpdate_validate body =
     (case (optional_str ''title'' 1 255 (TaskUpdate_body.title body),
            optional_str ''description'' 0 1000 (TaskUpdate_body.description body),
            optional_str ''status'' 0 50 (TaskUpdate_body.status body),
            optional_str ''priority'' 0 20 (TaskUpdate_body.priority body),
            optional_str ''user_id'' 0 100 (TaskUpdate_body.user_id body)) of
        (Inr t, Inr d, Inr s, Inr p, Inr u) \<Rightarrow>
          Inr \<lparr>TaskUpdate.title = t, description = d, status = s, priority = p, user_id = u\<rparr>
      | _ \<Rightarrow> Inl (TaskUpdate_errors body))"

text \<open>
  \<open>TaskResponse(id=task.id, title=task.title, ...)\<close>: the constructor validates its
  arguments against \<open>TaskResponse\<close> (\<open>id\<close>, \<open>title\<close>, \<open>status\<close> and \<open>priority\<close> not
  \<open>None\<close>, and the length bounds of \<open>TaskBase\<close>) and raises pydantic's \<open>ValidationError\<close>
  otherwise. \<open>external_api_data\<close> is not a field of the response.
\<close>

definition TaskResponse_of :: "Task \<Rightarrow> exn + TaskResponse" where
  "TaskResponse_of task =
     (case (Task.id task, Task.title task, Task.status task, Task.priority task) of
        (Some i, Some t, Some s, Some p) \<Rightarrow>
          if 1 \<le> length t \<and> length t \<le> 255
             \<and> (case Task.description task of None \<Rightarrow> True | Some d \<Rightarrow> length d \<le> 1000)
             \<and> length s \<le> 50 \<and> length p \<le> 20
          then Inr \<lparr>TaskResponse.title = t, description = Task.description task, status = s,
                    priority = p, id = i, external_id = Task.external_id task,
                    user_id = Task.user_id task, created_at = Task.created_at task,
                    updated_at = Task.updated_at task, completed_at = Task.completed_at task\<rparr>
          else Inl (Exception ''validation error for TaskResponse'')
      | _ \<Rightarrow> Inl (Exception ''validation error for TaskResponse''))"

section \<open>The persistence provider and the world around a request\<close>

text \<open>
  The database is outside the repository; a session is used through \<open>get\<close>, \<open>add\<close>,
  \<open>delete\<close>, \<open>commit\<close>, \<open>refresh\<close> and \<open>exec\<close>. It is modelled by the committed rows of the
  task table, in the order in which a \<open>select\<close> returns them (the source gives no
  \<open>ORDER BY\<close>). \<open>calls\<close> records the arguments with which \<open>fetch_external_data\<close> has been
  invoked.
\<close>

record world =
  table :: "Task list"
  calls :: "int list"

definition initial :: world where
  "initial = \<lparr>table = [], calls = []\<rparr>"

text \<open>\<open>session.get(Task, task_id)\<close>: the row with that primary key, or \<open>None\<close>.\<close>

definition session_get :: "world \<Rightarrow> int \<Rightarrow> Task option" where
  "session_get w task_id = find (\<lambda>t. Task.id t = Some task_id) (table w)"

definition not_null :: "Task \<Rightarrow> bool" where
  "not_null t \<longleftrightarrow> Task.title t \<noteq> None \<and> Task.status t \<noteq> None \<and> Task.priority t \<noteq> None"

definition stored :: "world \<Rightarrow> int \<Rightarrow> bool" where
  "stored w i = list_ex (\<lambda>t. Task.id t = Some i) (table w)"

text \<open>
  \<open>session.add(db_task); session.commit(); session.refresh(db_task)\<close> for a new object,
  whose \<open>id\<close> is \<open>None\<close>. What becomes of the INSERT is decided by the database, not by
  code of the repository: \<open>ins\<close> is its answer, either the exception that \<open>commit\<close> raises
  (a value that a column cannot hold, such as an \<open>external_id\<close> beyond the integer column
  or a NUL character in a string on PostgreSQL, or a lost connection), or the primary key
  it gives the row; which key that is (the next value of a sequence, or the largest
  stored key plus one) is the engine's. The columns of \<open>title\<close>, \<open>status\<close> and \<open>priority\<close>
  are \<open>NOT NULL\<close> and \<open>id\<close> is the primary key (models/task.py): an INSERT that breaks
  either raises.
\<close>

definition commit_new :: "exn + int \<Rightarrow> Task \<Rightarrow> world \<Rightarrow> exn + Task \<times> world" where
  "commit_new ins db_task w =
     (case ins of
        Inl e \<Rightarrow> Inl e
      | Inr i \<Rightarrow>
          if \<not> not_null db_task \<or> stored w i then Inl (Exception ''IntegrityError'')
          else let row = db_task\<lparr>Task.id := Some i\<rparr>
               in Inr (row, w\<lparr>table := table w @ [row]\<rparr>))"

text \<open>The same three calls for an object loaded by \<open>session.get\<close>: its row is rewritten.\<close>

definition commit_changed :: "Task \<Rightarrow> world \<Rightarrow> exn + Task \<times> world" where
  "commit_changed db_task w =
     (if \<not> not_null db_task then Inl (Exception ''IntegrityError'')
      else Inr (db_task,
                w\<lparr>table := map (\<lambda>row. if Task.id row = Task.id db_task then db_task else row)
                                 (table w)\<rparr>))"

text \<open>\<open>session.delete(db_task); session.commit()\<close>.\<close>

definition commit_deleted :: "Task \<Rightarrow> world \<Rightarrow> world" where
  "commit_deleted db_task w = w\<lparr>table := filter (\<lambda>row. Task.id row \<noteq> Task.id db_task) (table w)\<rparr>"

section \<open>The task service (api/tasks.py)\<close>

text \<open>
  Every handler is a \<open>try\<close> block and its \<open>except\<close> clauses. \<open>reraise\<close> is
  \<open>except HTTPException: raise\<close> followed by \<open>except Exception\<close>, which raises
  \<open>HTTPException\<close> 500 with the handler's own detail.
\<close>

definition reraise :: "string \<Rightarrow> exn \<Rightarrow> exn" where
  "reraise detail e =
     (case e of HTTPException code d \<Rightarrow> HTTPException code d
              | _ \<Rightarrow> HTTPException 500 detail)"

definition not_found :: "int \<Rightarrow> exn" where
  "not_found task_id = HTTPException 404 (''Task with ID '' @ str_int task_id @ '' not found'')"

subsection \<open>\<open>create_task\<close>\<close>

text \<open>
  \<open>Task.model_validate(task_data)\<close> copies the fields that \<open>TaskCreate\<close> has and gives
  the others their defaults. \<open>created_at\<close> and \<open>updated_at\<close> each have
  \<open>default_factory=datetime.utcnow\<close>: the clock is read once for each, \<open>created_at\<close>
  first; \<open>now1\<close> and \<open>now2\<close> are the two readings.
\<close>

definition Task_model_validate :: "datetime \<Rightarrow> datetime \<Rightarrow> TaskCreate \<Rightarrow> Task" where
  "Task_model_validate now1 now2 task_data =
     \<lparr>Task.title = Some (TaskCreate.title task_data),
      description = TaskCreate.description task_data,
      status = Some (TaskCreate.status task_data),
      priority = Some (TaskCreate.priority task_data),
      external_api_data = None,
      id = None,
      external_id = TaskCreate.external_id task_data,
      user_id = TaskCreate.user_id task_data,
      created_at = now1,
      updated_at = now2,
      completed_at = None\<rparr>"

text \<open>\<open>if db_task.external_id:\<close> is false for \<open>None\<close> and for 0.\<close>

definition truthy_int :: "int option \<Rightarrow> bool" where
  "truthy_int v = (case v of None \<Rightarrow> False | Some n \<Rightarrow> n \<noteq> 0)"

text \<open>
  The enrichment step: the inner \<open>try\<close> catches \<open>ExternalAPIException\<close> only (the warning
  it logs is not modelled). \<open>up\<close> is what the remote service does with the request.
\<close>

definition enrich :: "upstream \<Rightarrow> Task \<Rightarrow> world \<Rightarrow> (exn + Task) \<times> world" where
  "enrich up db_task w =
     (if truthy_int (Task.external_id db_task) then
        (case Task.external_id db_task of
           None \<Rightarrow> (Inr db_task, w)
         | Some ext_id \<Rightarrow>
             (case fetch_external_data ext_id up of
                Inr external_data \<Rightarrow>
                  (Inr (db_task\<lparr>external_api_data := Some external_data\<rparr>),
                   w\<lparr>calls := calls w @ [ext_id]\<rparr>)
              | Inl (ExternalAPIException message code) \<Rightarrow>
                  (Inr db_task, w\<lparr>calls := calls w @ [ext_id]\<rparr>)
              | Inl e \<Rightarrow> (Inl e, w\<lparr>calls := calls w @ [ext_id]\<rparr>)))
      else (Inr db_task, w))"

definition create_task_try ::
    "datetime \<Rightarrow> datetime \<Rightarrow> upstream \<Rightarrow> exn + int \<Rightarrow> TaskCreate \<Rightarrow> world
       \<Rightarrow> (exn + TaskResponse) \<times> world" where
  "create_task_try now1 now2 up ins task_data w =
     (case enrich up (Task_model_validate now1 now2 task_data) w of
        (Inl e, w1) \<Rightarrow> (Inl e, w1)
      | (Inr db_task, w1) \<Rightarrow>
          (case commit_new ins db_task w1 of
             Inl e \<Rightarrow> (Inl e, w1)
           | Inr (row, w2) \<Rightarrow>
               (case TaskResponse_of row of
                  Inl e \<Rightarrow> (Inl e, w2)
                | Inr response \<Rightarrow> (Inr response, w2))))"

definition create_task ::
    "datetime \<Rightarrow> datetime \<Rightarrow> upstream \<Rightarrow> exn + int \<Rightarrow> TaskCreate \<Rightarrow> world
       \<Rightarrow> (exn + TaskResponse) \<times> world" where
  "create_task now1 now2 up ins task_data w =
     (case create_task_try now1 now2 up ins task_data w of
        (Inl e, w') \<Rightarrow> (Inl (HTTPException 500 ''An error occurred while creating the task''), w')
      | (Inr response, w') \<Rightarrow> (Inr response, w'))"

subsection \<open>\<open>get_task\<close>\<close>

definition get_task_try :: "int \<Rightarrow> world \<Rightarrow> exn + TaskResponse" where
  "get_task_try task_id w =
     (case session_get w task_id of
        None \<Rightarrow> Inl (not_found task_id)
      | Some task \<Rightarrow> TaskResponse_of task)"

definition get_task :: "int \<Rightarrow> world \<Rightarrow> exn + TaskResponse" where
  "get_task task_id w =
     (case get_task_try task_id w of
        Inl e \<Rightarrow> Inl (reraise ''An error occurred while retrieving the task'' e)
      | Inr response \<Rightarrow> Inr response)"

subsection \<open>\<open>update_task\<close>\<close>

text \<open>
  \<open>task_data.model_dump(exclude_unset=True)\<close>: the fields that were given, with their
  values, in the order of declaration.
\<close>

definition dump_field :: "string \<Rightarrow> 'a field \<Rightarrow> (string \<times> 'a) list" where
  "dump_field name f = (case f of Unset \<Rightarrow> [] | Provided v \<Rightarrow> [(name, v)])"

definition model_dump_exclude_unset :: "TaskUpdate \<Rightarrow> (string \<times> string option) list" where
  "model_dump_exclude_unset task_data =
     dump_field ''title'' (TaskUpdate.title task_data)
     @ dump_field ''description'' (TaskUpdate.description task_data)
     @ dump_field ''status'' (TaskUpdate.status task_data)
     @ dump_field ''priority'' (TaskUpdate.priority task_data)
     @ dump_field ''user_id'' (TaskUpdate.user_id task_data)"

text \<open>
  \<open>setattr(db_task, field, value)\<close>, for the names \<open>model_dump\<close> can produce (the five
  fields of \<open>TaskUpdate\<close>, each an attribute of \<open>Task\<close>).
\<close>

definition setattr :: "Task \<Rightarrow> string \<Rightarrow> string option \<Rightarrow> Task" where
  "setattr db_task field_name v =
     (if field_name = ''title'' then db_task\<lparr>Task.title := v\<rparr>
      else if field_name = ''description'' then db_task\<lparr>Task.description := v\<rparr>
      else if field_name = ''status'' then db_task\<lparr>Task.status := v\<rparr>
      else if field_name = ''priority'' then db_task\<lparr>Task.priority := v\<rparr>
      else if field_name = ''user_id'' then db_task\<lparr>Task.user_id := v\<rparr>
      else db_task)"

text \<open>\<open>for field, value in update_data.items(): setattr(db_task, field, value)\<close>.\<close>

fun setattr_items :: "(string \<times> string option) list \<Rightarrow> Task \<Rightarrow> Task" where
  "setattr_items [] db_task = db_task"
| "setattr_items ((field_name, v) # items) db_task = setattr_items items (setattr db_task field_name v)"

text \<open>
  \<open>db_task.updated_at.__class__()\<close>: \<open>updated_at\<close> holds a \<open>datetime\<close>, so this calls the
  class \<open>datetime\<close> with no argument. Its constructor requires \<open>year\<close>, \<open>month\<close> and
  \<open>day\<close>, and the call raises \<open>TypeError\<close>.
\<close>

definition datetime_class_call :: "exn + datetime" where
  "datetime_class_call = Inl (TypeError ''function missing required argument 'year' (pos 1)'')"

definition update_task_try :: "int \<Rightarrow> TaskUpdate \<Rightarrow> world \<Rightarrow> (exn + TaskResponse) \<times> world" where
  "update_task_try task_id task_data w =
     (case session_get w task_id of
        None \<Rightarrow> (Inl (not_found task_id), w)
      | Some db_task \<Rightarrow>
          (let update_data = model_dump_exclude_unset task_data;
               db_task1 = setattr_items update_data db_task
           in case datetime_class_call of
                Inl e \<Rightarrow> (Inl e, w)
              | Inr now \<Rightarrow>
                  (case commit_changed (db_task1\<lparr>Task.updated_at := now\<rparr>) w of
                     Inl e \<Rightarrow> (Inl e, w)
                   | Inr (row, w') \<Rightarrow>
                       (case TaskResponse_of row of
                          Inl e \<Rightarrow> (Inl e, w')
                        | Inr response \<Rightarrow> (Inr response, w')))))"

definition update_task :: "int \<Rightarrow> TaskUpdate \<Rightarrow> world \<Rightarrow> (exn + TaskResponse) \<times> world" where
  "update_task task_id task_data w =
     (case update_task_try task_id task_data w of
        (Inl e, w') \<Rightarrow> (Inl (reraise ''An error occurred while updating the task'' e), w')
      | (Inr response, w') \<Rightarrow> (Inr response, w'))"

subsection \<open>\<open>delete_task\<close>\<close>

definition delete_task_try :: "int \<Rightarrow> world \<Rightarrow> (exn + unit) \<times> world" where
  "delete_task_try task_id w =
     (case session_get w task_id of
        None \<Rightarrow> (Inl (not_found task_id), w)
      | Some db_task \<Rightarrow> (Inr (), commit_deleted db_task w))"

definition delete_task :: "int \<Rightarrow> world \<Rightarrow> (exn + unit) \<times> world" where
  "delete_task task_id w =
     (case delete_task_try task_id w of
        (Inl e, w') \<Rightarrow> (Inl (reraise ''An error occurred while deleting the task'' e), w')
      | (Inr u, w') \<Rightarrow> (Inr u, w'))"

subsection \<open>\<open>list_tasks\<close>\<close>

text \<open>\<open>if status_filter:\<close> is false for \<open>None\<close> and for the empty string.\<close>

definition truthy_str :: "string option \<Rightarrow> bool" where
  "truthy_str v = (case v of None \<Rightarrow> False | Some s \<Rightarrow> s \<noteq> [])"

text \<open>
  \<open>select(Task)\<close> with the two conditional \<open>where\<close> clauses, executed: the source builds
  this query twice, for the page and for the total.
\<close>

definition select_where :: "string option \<Rightarrow> string option \<Rightarrow> world \<Rightarrow> Task list" where
  "select_where status_filter priority_filter w =
     (let query = table w;
          query = (if truthy_str status_filter
                   then filter (\<lambda>t. Task.status t = status_filter) query else query);
          query = (if truthy_str priority_filter
                   then filter (\<lambda>t. Task.priority t = priority_filter) query else query)
      in query)"

text \<open>The list comprehension: the first constructor that raises ends it.\<close>

fun task_responses :: "Task list \<Rightarrow> exn + TaskResponse list" where
  "task_responses [] = Inr []"
| "task_responses (task # rest) =
     (case TaskResponse_of task of
        Inl e \<Rightarrow> Inl e
      | Inr response \<Rightarrow>
          (case task_responses rest of
             Inl e \<Rightarrow> Inl e
           | Inr responses \<Rightarrow> Inr (response # responses)))"

text \<open>
  The handler is entered with \<open>skip\<close> and \<open>limit\<close> inside their \<open>Query\<close> bounds (see
  \<open>list_tasks\<close> below), so \<open>skip // limit\<close> divides by a positive number. \<open>skip\<close> has no
  upper bound there, and \<open>offset(skip)\<close> is a 64-bit integer of the database: from
  \<open>2 ^ 63\<close> on, executing the paginated query raises (after the total has been
  computed). Below that, \<open>offset(skip).limit(limit)\<close> drops and takes that many rows.
\<close>

definition list_tasks_try ::
    "int \<Rightarrow> int \<Rightarrow> string option \<Rightarrow> string option \<Rightarrow> world \<Rightarrow> exn + TaskListResponse" where
  "list_tasks_try skip limit status_filter priority_filter w =
     (let n = int (length (select_where status_filter priority_filter w))
      in if skip \<ge> 2 ^ 63 then Inl (Exception ''integer out of range'')
         else
           (let rows = take (nat limit) (drop (nat skip)
                         (select_where status_filter priority_filter w))
            in case task_responses rows of
                 Inl e \<Rightarrow> Inl e
               | Inr responses \<Rightarrow>
                   Inr \<lparr>tasks = responses, total = n, page = (skip div limit) + 1,
                        size = limit\<rparr>))"

text \<open>
  The parameters \<open>skip: int = Query(0, ge=0)\<close> and \<open>limit: int = Query(10, ge=1, le=100)\<close>
  are validated before the handler runs; outside their bounds the request is answered
  with the errors and the handler is not entered.
\<close>

definition query_error :: "string \<Rightarrow> string \<Rightarrow> string \<Rightarrow> int \<Rightarrow> ErrorDetails" where
  "query_error name rule message v =
     \<lparr>loc = [''query'', name], msg = message, type = rule, input = The_value (JStr (str_int v))\<rparr>"

definition list_tasks_errors :: "int \<Rightarrow> int \<Rightarrow> ErrorDetails list" where
  "list_tasks_errors skip limit =
     (if skip \<ge> 0 then []
      else [query_error ''skip'' ''greater_than_equal''
              ''Input should be greater than or equal to 0'' skip])
     @ (if limit < 1 then
          [query_error ''limit'' ''greater_than_equal''
             ''Input should be greater than or equal to 1'' limit]
        else if limit > 100 then
          [query_error ''limit'' ''less_than_equal''
             ''Input should be less than or equal to 100'' limit]
        else [])"

text \<open>
  What a request to an endpoint ends in: the errors of the request's validation
  (fastapi's \<open>RequestValidationError\<close>), the exception the handler raises, or the value it
  returns.
\<close>

datatype 'a outcome = RequestValidationError "ErrorDetails list" | Raised exn | Returned 'a

definition handled :: "exn + 'a \<Rightarrow> 'a outcome" where
  "handled r = (case r of Inl e \<Rightarrow> Raised e | Inr v \<Rightarrow> Returned v)"

definition list_tasks ::
    "int \<Rightarrow> int \<Rightarrow> string option \<Rightarrow> string option \<Rightarrow> world \<Rightarrow> TaskListResponse outcome" where
  "list_tasks skip limit status_filter priority_filter w =
     (if list_tasks_errors skip limit \<noteq> [] then
        RequestValidationError (list_tasks_errors skip limit)
      else
        (case list_tasks_try skip limit status_filter priority_filter w of
           Inl e \<Rightarrow> Raised (HTTPException 500 ''An error occurred while retrieving the tasks'')
         | Inr response \<Rightarrow> Returned response))"

section \<open>Requests (the routes of api/tasks.py) and the error translator\<close>

text \<open>
  \<open>POST /tasks/\<close>: the body is validated against \<open>TaskCreate\<close>; \<open>create_task\<close> runs only
  on a valid one.
\<close>

definition post_tasks ::
    "datetime \<Rightarrow> datetime \<Rightarrow> upstream \<Rightarrow> exn + int \<Rightarrow> TaskCreate_body \<Rightarrow> world
       \<Rightarrow> TaskResponse outcome \<times> world" where
  "post_tasks now1 now2 up ins body w =
     (case TaskCreate_validate body of
        Inl errs \<Rightarrow> (RequestValidationError errs, w)
      | Inr task_data \<Rightarrow>
          (case create_task now1 now2 up ins task_data w of (r, w') \<Rightarrow> (handled r, w')))"

text \<open>\<open>PUT /tasks/{task_id}\<close>: the body is validated against \<open>TaskUpdate\<close>.\<close>

definition put_task :: "int \<Rightarrow> TaskUpdate_body \<Rightarrow> world \<Rightarrow> TaskResponse outcome \<times> world" where
  "put_task task_id body w =
     (case TaskUpdate_validate body of
        Inl errs \<Rightarrow> (RequestValidationError errs, w)
      | Inr task_data \<Rightarrow>
          (case update_task task_id task_data w of (r, w') \<Rightarrow> (handled r, w')))"

text \<open>
  \<open>validation_exception_handler\<close> (utils/exception_handlers.py), registered in main.py
  for \<open>RequestValidationError\<close>: the loop copies every entry of \<open>exc.errors()\<close>.
\<close>

record JSONResponse =
  status_code :: int
  detail :: "ErrorDetails list"
  error_code :: string

definition validation_exception_handler :: "ErrorDetails list \<Rightarrow> JSONResponse" where
  "validation_exception_handler exc_errors =
     \<lparr>JSONResponse.status_code = 422,
      detail = map (\<lambda>error. \<lparr>loc = loc error, msg = msg error, type = type error,
                               input = input error\<rparr>) exc_errors,
      error_code = ''VALIDATION_ERROR''\<rparr>"

text \<open>A request to the service, and the world after it. \<open>created\<close> is the id a request
  returned for a task it created.\<close>

datatype request =
    Post datetime datetime upstream "exn + int" TaskCreate_body
  | Get int
  | Put int TaskUpdate_body
  | Delete int
  | List int int "string option" "string option"

fun step :: "request \<Rightarrow> world \<Rightarrow> world" where
  "step (Post now1 now2 up ins body) w = snd (post_tasks now1 now2 up ins body w)"
| "step (Get task_id) w = w"
| "step (Put task_id body) w = snd (put_task task_id body w)"
| "step (Delete task_id) w = snd (delete_task task_id w)"
| "step (List skip limit status_filter priority_filter) w = w"

fun created :: "request \<Rightarrow> world \<Rightarrow> int list" where
  "created (Post now1 now2 up ins body) w =
     (case fst (post_tasks now1 now2 up ins body w) of
        Returned response \<Rightarrow> [TaskResponse.id response]
      | _ \<Rightarrow> [])"
| "created _ w = []"

fun run :: "request list \<Rightarrow> world \<Rightarrow> world" where
  "run [] w = w"
| "run (r # rs) w = run rs (step r w)"

fun created_ids :: "request list \<Rightarrow> world \<Rightarrow> int list" where
  "created_ids [] w = []"
| "created_ids (r # rs) w = created r w @ created_ids rs (step r w)"

section \<open>The specification's words\<close>

text \<open>
  The field constraints of \<open>createTask\<close> as the specification lists them: title required,
  1 to 255 characters; description at most 1000; status at most 50; priority at most 20;
  user_id at most 100 (title, status and priority are strings, not \<open>null\<close>). Each violated
  one is a pair of the field and the rule.
\<close>

definition longer_than :: "nat \<Rightarrow> string option field \<Rightarrow> bool" where
  "longer_than n f = (case f of Provided (Some s) \<Rightarrow> length s > n | _ \<Rightarrow> False)"

definition shorter_than :: "nat \<Rightarrow> string option field \<Rightarrow> bool" where
  "shorter_than n f = (case f of Provided (Some s) \<Rightarrow> length s < n | _ \<Rightarrow> False)"

definition spec_violations :: "TaskCreate_body \<Rightarrow> (string \<times> string) list" where
  "spec_violations body =
     (if TaskCreate_body.title body = Unset then [(''title'', ''missing'')] else [])
     @ (if TaskCreate_body.title body = Provided None then [(''title'', ''string_type'')] else [])
     @ (if shorter_than 1 (TaskCreate_body.title body) then [(''title'', ''string_too_short'')] else [])
     @ (if longer_than 255 (TaskCreate_body.title body) then [(''title'', ''string_too_long'')] else [])
     @ (if longer_than 1000 (TaskCreate_body.description body)
        then [(''description'', ''string_too_long'')] else [])
     @ (if TaskCreate_body.status body = Provided None then [(''status'', ''string_type'')] else [])
     @ (if longer_than 50 (TaskCreate_body.status body) then [(''status'', ''string_too_long'')] else [])
     @ (if TaskCreate_body.priority body = Provided None then [(''priority'', ''string_type'')] else [])
     @ (if longer_than 20 (TaskCreate_body.priority body)
        then [(''priority'', ''string_too_long'')] else [])
     @ (if longer_than 100 (TaskCreate_body.user_id body) then [(''user_id'', ''string_too_long'')] else [])"

text \<open>The field and the rule that an entry of the error response reports.\<close>

definition reported :: "ErrorDetails \<Rightarrow> string \<times> string" where
  "reported error = (last (loc error), type error)"



text \<open>A row that the response schema accepts, and a store whose rows all are.\<close>

definition row_ok :: "Task \<Rightarrow> bool" where
  "row_ok t \<longleftrightarrow> (case TaskResponse_of t of Inl e \<Rightarrow> False | Inr r \<Rightarrow> True)"

definition rows_ok :: "world \<Rightarrow> bool" where
  "rows_ok w \<longleftrightarrow> list_all row_ok (table w)"

text \<open>The constraints of \<open>TaskCreate\<close>, on a validated object.\<close>

definition TaskCreate_valid :: "TaskCreate \<Rightarrow> bool" where
  "TaskCreate_valid task_data \<longleftrightarrow>
     1 \<le> length (TaskCreate.title task_data) \<and> length (TaskCreate.title task_data) \<le> 255
     \<and> (case TaskCreate.description task_data of None \<Rightarrow> True | Some d \<Rightarrow> length d \<le> 1000)
     \<and> length (TaskCreate.status task_data) \<le> 50
     \<and> length (TaskCreate.priority task_data) \<le> 20
     \<and> (case TaskCreate.user_id task_data of None \<Rightarrow> True | Some u \<Rightarrow> length u \<le> 100)"

text \<open>No two stored tasks have the same id.\<close>

definition unique_ids :: "world \<Rightarrow> bool" where
  "unique_ids w \<longleftrightarrow> distinct (map Task.id (table w))"

section \<open>Notions used in the proofs\<close>

text \<open>
  What the enrichment step of \<open>create_task\<close> leaves in \<open>external_api_data\<close> for a given
  \<open>external_id\<close>, and the calls of \<open>fetch_external_data\<close> it makes.
\<close>

definition enriched :: "upstream \<Rightarrow> int option \<Rightarrow> string option" where
  "enriched up v =
     (case v of
        None \<Rightarrow> None
      | Some n \<Rightarrow>
          if n = 0 then None
          else (case fetch_external_data n up of Inl e \<Rightarrow> None | Inr d \<Rightarrow> Some d))"

definition called :: "int option \<Rightarrow> int list" where
  "called v = (case v of None \<Rightarrow> [] | Some n \<Rightarrow> if n = 0 then [] else [n])"

text \<open>A stored task, a store that holds it, and request data, for the concrete cases.\<close>

definition task1 :: Task where
  "task1 =
     \<lparr>Task.title = Some ''Original Task'', description = Some ''Original Description'',
      status = Some ''pending'', priority = Some ''low'', external_api_data = None,
      id = Some 1, external_id = None, user_id = Some ''user789'',
      created_at = 1700000000000000, updated_at = 1700000000000007, completed_at = None\<rparr>"

definition world1 :: world where
  "world1 = \<lparr>table = [task1], calls = []\<rparr>"



definition create1 :: TaskCreate where
  "create1 =
     \<lparr>TaskCreate.title = ''Task with External API Failure'', description = None,
      status = ''pending'', priority = ''medium'', user_id = Some ''user456'',
      external_id = Some 999\<rparr>"


definition update1 :: TaskUpdate where
  "update1 =
     \<lparr>TaskUpdate.title = Unset, description = Unset, status = Provided (Some ''completed''),
      priority = Unset, user_id = Unset\<rparr>"


definition create_body1 :: TaskCreate_body where
  "create_body1 =
     \<lparr>TaskCreate_body.title = Provided (Some ''''), description = Unset,
      status = Provided None, priority = Unset, user_id = Unset, external_id = Unset,
      extra = []\<rparr>"

definition create_body2 :: TaskCreate_body where
  "create_body2 =
     \<lparr>TaskCreate_body.title = Provided (Some ''Test Task''),
      description = Provided (Some ''Test Description''), status = Provided (Some ''pending''),
      priority = Provided (Some ''medium''), user_id = Provided (Some ''user123''),
      external_id = Unset, extra = []\<rparr>"

section \<open>The enrichment client: results\<close>

lemma str_int_99999: "str_int 99999 = ''99999''"
  by (simp add: str_int_def str_nat.simps)

lemma str_int_503: "str_int 503 = ''503''"
  by (simp add: str_int_def str_nat.simps)

lemma fetch_external_data_raises:
  "fetch_external_data_try n up = Inl e \<Longrightarrow>
     \<exists>message code. fetch_external_data n up
        = Inl (ExternalAPIException message (Some code)) \<and> code \<in> {408, 502, 500}"
  by (cases e) (simp_all add: fetch_external_data_def)

text \<open>
  C2. An upstream 404 does not reach the caller as an \<open>ExternalAPIException\<close> with status
  404: the exception raised in the \<open>try\<close> block is caught by \<open>except Exception\<close> of the
  same function and raised again with status 500 and a wrapped message. The same happens
  to every other upstream status from 400 on (here 503), whose own code is lost.
\<close>

theorem fetch_external_data_http_errors_become_500:
  "fetch_external_data 99999 (Returns \<lparr>Response.status_code = 404, text_of = ''{}'', json = Inr ''{}''\<rparr>)
     = Inl (ExternalAPIException
         ''Unexpected error when fetching data from external API: Resource with ID 99999 not found in external API''
         (Some 500))
   \<and> fetch_external_data 1 (Returns \<lparr>Response.status_code = 503, text_of = ''busy'', json = Inl (Exception ''Expecting value'')\<rparr>)
     = Inl (ExternalAPIException
         ''Unexpected error when fetching data from external API: External API request failed with status 503: busy''
         (Some 500))"
  by (simp add: fetch_external_data_def fetch_external_data_try_def str_int_99999 str_int_503)

section \<open>Creating a task\<close>

lemma fetch_external_data_Inl:
  "fetch_external_data n up = Inl e \<Longrightarrow> \<exists>m c. e = ExternalAPIException m (Some c)"
  by (auto simp: fetch_external_data_def split: sum.splits exn.splits)

lemma enrich_eq:
  "enrich up t w =
     (Inr (t\<lparr>external_api_data :=
               (case enriched up (Task.external_id t) of
                  None \<Rightarrow> external_api_data t | Some d \<Rightarrow> Some d)\<rparr>),
      w\<lparr>calls := calls w @ called (Task.external_id t)\<rparr>)"
proof (cases "Task.external_id t")
  case None
  then show ?thesis by (simp add: enrich_def truthy_int_def enriched_def called_def)
next
  case (Some n)
  show ?thesis
  proof (cases "n = 0")
    case True
    with Some show ?thesis by (simp add: enrich_def truthy_int_def enriched_def called_def)
  next
    case False
    show ?thesis
    proof (cases "fetch_external_data n up")
      case (Inl e)
      then obtain m c where "e = ExternalAPIException m (Some c)"
        using fetch_external_data_Inl by blast
      with Inl Some False show ?thesis
        by (simp add: enrich_def truthy_int_def enriched_def called_def)
    next
      case (Inr d)
      with Some False show ?thesis
        by (simp add: enrich_def truthy_int_def enriched_def called_def)
    qed
  qed
qed

lemma enrich_new:
  "enrich up (Task_model_validate n1 n2 td) w =
     (Inr ((Task_model_validate n1 n2 td)
             \<lparr>external_api_data := enriched up (TaskCreate.external_id td)\<rparr>),
      w\<lparr>calls := calls w @ called (TaskCreate.external_id td)\<rparr>)"
proof -
  let ?t = "Task_model_validate n1 n2 td"
  have e: "external_api_data ?t = None" "Task.external_id ?t = TaskCreate.external_id td"
    by (simp_all add: Task_model_validate_def)
  have x: "(case enriched up (TaskCreate.external_id td) of None \<Rightarrow> None | Some d \<Rightarrow> Some d)
           = enriched up (TaskCreate.external_id td)"
    by (simp split: option.splits)
  show ?thesis
    unfolding enrich_eq e x ..
qed

lemma TaskResponse_of_new:
  assumes "TaskCreate_valid td"
  shows "TaskResponse_of
           ((Task_model_validate n1 n2 td)\<lparr>external_api_data := x, Task.id := Some i\<rparr>)
         = Inr \<lparr>TaskResponse.title = TaskCreate.title td,
                description = TaskCreate.description td,
                status = TaskCreate.status td, priority = TaskCreate.priority td, id = i,
                external_id = TaskCreate.external_id td, user_id = TaskCreate.user_id td,
                created_at = n1, updated_at = n2, completed_at = None\<rparr>"
  using assms by (simp add: TaskResponse_of_def Task_model_validate_def TaskCreate_valid_def)

lemma stored_iff: "stored w i \<longleftrightarrow> (\<exists>t\<in>set (table w). Task.id t = Some i)"
  by (simp add: stored_def list_ex_iff)

lemma stored_calls: "stored (w\<lparr>calls := cs\<rparr>) i = stored w i"
  by (simp add: stored_def)

text \<open>
  On valid data, what \<open>create_task\<close> does is decided by the answer of the database: when
  the INSERT raises (or the key is taken) the caller gets \<open>HTTPException\<close> 500 and no row
  is stored; otherwise the row is appended under the key given and the task returned.
\<close>

lemma create_task_refused:
  assumes "TaskCreate_valid td" and "ins = Inl e \<or> (\<exists>i. ins = Inr i \<and> stored w i)"
  shows "create_task n1 n2 up ins td w =
      (Inl (HTTPException 500 ''An error occurred while creating the task''),
       w\<lparr>calls := calls w @ called (TaskCreate.external_id td)\<rparr>)"
  using assms(2)
  by (auto simp: create_task_def create_task_try_def enrich_new commit_new_def stored_calls)

lemma create_task_inserted:
  assumes "TaskCreate_valid td" and "\<not> stored w i"
  shows "create_task n1 n2 up (Inr i) td w =
      (Inr \<lparr>TaskResponse.title = TaskCreate.title td, description = TaskCreate.description td,
             status = TaskCreate.status td, priority = TaskCreate.priority td, id = i,
             external_id = TaskCreate.external_id td, user_id = TaskCreate.user_id td,
             created_at = n1, updated_at = n2, completed_at = None\<rparr>,
       w\<lparr>table := table w @
            [(Task_model_validate n1 n2 td)
               \<lparr>external_api_data := enriched up (TaskCreate.external_id td),
                Task.id := Some i\<rparr>],
          calls := calls w @ called (TaskCreate.external_id td)\<rparr>)"
proof -
  have nn: "not_null ((Task_model_validate n1 n2 td)\<lparr>external_api_data := y\<rparr>)" for y
    by (simp add: not_null_def Task_model_validate_def)
  show ?thesis
    using assms(2)
    by (simp add: create_task_def create_task_try_def enrich_new nn commit_new_def Let_def
        stored_calls TaskResponse_of_new[OF assms(1)])
qed

lemma create_task_cases:
  assumes "TaskCreate_valid td"
  obtains (refused) "create_task n1 n2 up ins td w =
      (Inl (HTTPException 500 ''An error occurred while creating the task''),
       w\<lparr>calls := calls w @ called (TaskCreate.external_id td)\<rparr>)"
  | (inserted) i where "ins = Inr i" and "\<not> stored w i"
      and "create_task n1 n2 up ins td w =
      (Inr \<lparr>TaskResponse.title = TaskCreate.title td, description = TaskCreate.description td,
             status = TaskCreate.status td, priority = TaskCreate.priority td, id = i,
             external_id = TaskCreate.external_id td, user_id = TaskCreate.user_id td,
             created_at = n1, updated_at = n2, completed_at = None\<rparr>,
       w\<lparr>table := table w @
            [(Task_model_validate n1 n2 td)
               \<lparr>external_api_data := enriched up (TaskCreate.external_id td),
                Task.id := Some i\<rparr>],
          calls := calls w @ called (TaskCreate.external_id td)\<rparr>)"
proof (cases ins)
  case (Inl e)
  then show ?thesis using create_task_refused[OF assms, of ins e w] refused by blast
next
  case (Inr i)
  show ?thesis
  proof (cases "stored w i")
    case True
    with Inr show ?thesis using create_task_refused[OF assms, of ins _ w] refused by blast
  next
    case False
    with Inr show ?thesis using create_task_inserted[OF assms False] inserted by blast
  qed
qed

lemma TaskCreate_valid_create1: "TaskCreate_valid create1"
  by (simp add: TaskCreate_valid_def create1_def)



lemma not_stored_world1: "\<not> stored world1 2"
  by (simp add: stored_def world1_def task1_def)




text \<open>
  C9. For a valid \<open>createTask\<close> input whose \<open>external_id\<close> is present and equal to 0,
  the enrichment client is not invoked (the record of its calls is unchanged), whatever
  the remote service would answer and whatever the database does with the INSERT; and
  when \<open>create_task\<close> returns, which it does when the database accepts the INSERT, the
  created task's \<open>external_api_data\<close> is unset.
\<close>

theorem create_task_external_id_zero:
  assumes "TaskCreate_valid task_data"
    and "TaskCreate.external_id task_data = Some 0"
  shows "calls (snd (create_task now1 now2 up ins task_data w)) = calls w
     \<and> (\<forall>response. fst (create_task now1 now2 up ins task_data w) = Inr response \<longrightarrow>
           (\<exists>row. table (snd (create_task now1 now2 up ins task_data w)) = table w @ [row]
              \<and> Task.id row = Some (TaskResponse.id response)
              \<and> Task.external_id row = Some 0
              \<and> TaskResponse.external_id response = Some 0
              \<and> Task.external_api_data row = None))
     \<and> (\<forall>i. ins = Inr i \<and> \<not> stored w i \<longrightarrow>
           (\<exists>response. fst (create_task now1 now2 up ins task_data w) = Inr response))
     \<and> (\<forall>x. fst (create_task now1 now2 up ins task_data w) = Inl x \<longrightarrow>
           table (snd (create_task now1 now2 up ins task_data w)) = table w)"
proof -
  have "\<exists>response. fst (create_task now1 now2 up ins task_data w) = Inr response"
    if "ins = Inr i" and "\<not> stored w i" for i
    using that by (simp add: create_task_inserted[OF assms(1)])
  then show ?thesis
    using assms(2)
    by (cases rule: create_task_cases[OF assms(1), of now1 now2 up ins w])
       (simp_all add: Task_model_validate_def enriched_def called_def)
qed

theorem create_task_external_id_zero_witness:
  "TaskCreate_valid (create1\<lparr>TaskCreate.external_id := Some 0\<rparr>)
   \<and> TaskCreate.external_id (create1\<lparr>TaskCreate.external_id := Some 0\<rparr>) = Some 0
   \<and> \<not> stored world1 2
   \<and> calls (snd (create_task 5 6
         (Returns \<lparr>Response.status_code = 200, text_of = ''{}'', json = Inr ''{}''\<rparr>) (Inr 2)
         (create1\<lparr>TaskCreate.external_id := Some 0\<rparr>) world1)) = calls world1
   \<and> (\<exists>response row.
        fst (create_task 5 6
          (Returns \<lparr>Response.status_code = 200, text_of = ''{}'', json = Inr ''{}''\<rparr>) (Inr 2)
          (create1\<lparr>TaskCreate.external_id := Some 0\<rparr>) world1) = Inr response
        \<and> table (snd (create_task 5 6
             (Returns \<lparr>Response.status_code = 200, text_of = ''{}'', json = Inr ''{}''\<rparr>) (Inr 2)
             (create1\<lparr>TaskCreate.external_id := Some 0\<rparr>) world1)) = table world1 @ [row]
        \<and> Task.id row = Some (TaskResponse.id response)
        \<and> Task.external_id row = Some 0
        \<and> Task.external_api_data row = None)"
proof -
  have a: "TaskCreate_valid (create1\<lparr>TaskCreate.external_id := Some 0\<rparr>)"
    by (simp add: TaskCreate_valid_def create1_def)
  have b: "TaskCreate.external_id (create1\<lparr>TaskCreate.external_id := Some 0\<rparr>) = Some 0"
    by simp
  show ?thesis
    using a b not_stored_world1
      create_task_external_id_zero[OF a b, of 5 6
        "Returns \<lparr>Response.status_code = 200, text_of = ''{}'', json = Inr ''{}''\<rparr>"
        "Inr 2" world1]
    by blast
qed

section \<open>Updating a task\<close>

text \<open>Whatever the payload, \<open>update_task\<close> raises and leaves the store as it was.\<close>

lemma update_task_raises:
  "update_task task_id task_data w =
     (Inl (case session_get w task_id of
             None \<Rightarrow> not_found task_id
           | Some db_task \<Rightarrow> HTTPException 500 ''An error occurred while updating the task''), w)"
  by (simp add: update_task_def update_task_try_def datetime_class_call_def reraise_def
      not_found_def Let_def split: option.splits)

lemma put_task_unchanged: "snd (put_task task_id body w) = w"
  by (simp add: put_task_def update_task_raises split: sum.splits)

lemma session_get_world1: "session_get world1 1 = Some task1"
  by (simp add: session_get_def world1_def task1_def)

text \<open>
  C1. An update of an existing task does not return the updated task: the statement meant
  to set \<open>updated_at\<close> to the current time calls \<open>datetime\<close> without arguments, the
  \<open>TypeError\<close> is turned into \<open>HTTPException\<close> 500, and nothing is committed. Here task 1
  exists and the payload is \<open>{"status": "completed"}\<close>.
\<close>

theorem update_task_existing_raises_500:
  "session_get world1 1 = Some task1
   \<and> update_task 1 update1 world1
       = (Inl (HTTPException 500 ''An error occurred while updating the task''), world1)"
  by (simp add: update_task_raises session_get_world1)

section \<open>Deleting and reading a task\<close>

lemma find_filter_None: "find P (filter (\<lambda>x. \<not> P x) xs) = None"
  by (induction xs) simp_all

lemma find_Some_holds: "find P xs = Some x \<Longrightarrow> P x"
  by (induction xs) (auto split: if_splits)

text \<open>
  C8. After a successful \<open>delete_task\<close> of an id, \<open>get_task\<close> of the same id raises
  \<open>HTTPException\<close> 404.
\<close>

theorem get_task_after_delete_task:
  assumes "delete_task task_id w = (Inr u, w')"
  shows "get_task task_id w'
           = Inl (HTTPException 404 (''Task with ID '' @ str_int task_id @ '' not found''))"
proof -
  from assms obtain db_task where g: "session_get w task_id = Some db_task"
    and w': "w' = commit_deleted db_task w"
    by (auto simp: delete_task_def delete_task_try_def split: option.splits)
  from g have "Task.id db_task = Some task_id"
    unfolding session_get_def by (rule find_Some_holds)
  with w' have "session_get w' task_id = None"
    by (simp add: session_get_def commit_deleted_def find_filter_None)
  then show ?thesis
    by (simp add: get_task_def get_task_try_def not_found_def reraise_def)
qed

lemma delete_task_world1:
  "delete_task 1 world1 = (Inr (), world1\<lparr>table := []\<rparr>)"
  by (simp add: delete_task_def delete_task_try_def session_get_world1 commit_deleted_def)
     (simp add: world1_def task1_def)

theorem get_task_after_delete_task_witness:
  "delete_task 1 world1 = (Inr (), world1\<lparr>table := []\<rparr>)
   \<and> get_task 1 (world1\<lparr>table := []\<rparr>) = Inl (HTTPException 404 ''Task with ID 1 not found'')"
  using delete_task_world1 get_task_after_delete_task[OF delete_task_world1]
  by (simp add: str_int_def str_nat.simps)

section \<open>Listing tasks\<close>

text \<open>
  C10. A status or priority filter given as the empty string is not applied: the outcome
  of \<open>list_tasks\<close> (tasks, total, page and size, or the failure) is that of the same call
  without the filter.
\<close>

theorem list_tasks_empty_filter:
  "list_tasks skip limit (Some []) priority_filter w = list_tasks skip limit None priority_filter w
   \<and> list_tasks skip limit status_filter (Some []) w = list_tasks skip limit status_filter None w"
  by (simp add: list_tasks_def list_tasks_try_def select_where_def truthy_str_def)









section \<open>Validation of the request body\<close>

lemma reported_required_str:
  "map reported (errors (required_str name lo hi f)) =
     (if f = Unset then [(name, ''missing'')] else [])
     @ (if f = Provided None then [(name, ''string_type'')] else [])
     @ (if shorter_than lo f then [(name, ''string_too_short'')] else [])
     @ (if \<not> shorter_than lo f \<and> longer_than hi f then [(name, ''string_too_long'')] else [])"
  by (cases f rule: field.exhaust; simp add: required_str_def errors_def reported_def missing_def
        string_type_def shorter_than_def longer_than_def constrained_str_def split: option.splits)

lemma reported_default_str:
  "map reported (errors (default_str name d hi f)) =
     (if f = Provided None then [(name, ''string_type'')] else [])
     @ (if longer_than hi f then [(name, ''string_too_long'')] else [])"
  by (cases f rule: field.exhaust; simp add: default_str_def errors_def reported_def
        string_type_def longer_than_def constrained_str_def split: option.splits)

lemma reported_optional_str:
  "map reported (errors (optional_str name 0 hi f)) =
     (if longer_than hi f then [(name, ''string_too_long'')] else [])"
  by (cases f rule: field.exhaust; simp add: optional_str_def errors_def reported_def
        longer_than_def constrained_str_def split: option.splits)

lemma title_bounds: "\<not> shorter_than 1 f \<and> longer_than 255 f \<longleftrightarrow> longer_than 255 f"
  by (auto simp: shorter_than_def longer_than_def split: field.splits option.splits)

lemma reported_TaskCreate_errors:
  "map reported (TaskCreate_errors body) = spec_violations body"
  unfolding TaskCreate_errors_def spec_violations_def map_append
    reported_required_str reported_default_str reported_optional_str title_bounds
  by simp

lemma errors_Nil: "errors v = [] \<longleftrightarrow> (\<exists>x. v = Inr x)"
  by (cases v) (simp_all add: errors_def)

lemma TaskCreate_validate_Inl:
  assumes "TaskCreate_errors body \<noteq> []"
  shows "TaskCreate_validate body = Inl (TaskCreate_errors body)"
proof -
  have "\<not> (\<exists>t d s p u.
            required_str ''title'' 1 255 (TaskCreate_body.title body) = Inr t
          \<and> optional_str ''description'' 0 1000 (TaskCreate_body.description body) = Inr d
          \<and> default_str ''status'' ''pending'' 50 (TaskCreate_body.status body) = Inr s
          \<and> default_str ''priority'' ''medium'' 20 (TaskCreate_body.priority body) = Inr p
          \<and> optional_str ''user_id'' 0 100 (TaskCreate_body.user_id body) = Inr u)"
    using assms by (auto simp: TaskCreate_errors_def errors_def)
  then show ?thesis
    unfolding TaskCreate_validate_def by (auto split: sum.splits)
qed

lemma constrained_str_Inr:
  "constrained_str name lo hi s = Inr s' \<Longrightarrow> s' = s \<and> lo \<le> length s \<and> length s \<le> hi"
  by (auto simp: constrained_str_def split: if_splits)

lemma required_str_Inr:
  "required_str name lo hi f = Inr s \<Longrightarrow> lo \<le> length s \<and> length s \<le> hi"
  by (auto simp: required_str_def split: field.splits option.splits dest: constrained_str_Inr)

lemma default_str_Inr:
  "default_str name d hi f = Inr s \<Longrightarrow> length d \<le> hi \<Longrightarrow> length s \<le> hi"
  by (auto simp: default_str_def split: field.splits option.splits dest: constrained_str_Inr)

lemma optional_str_Inr:
  "optional_str name lo hi f = Inr v \<Longrightarrow>
     (case or_default None v of None \<Rightarrow> True | Some s \<Rightarrow> length s \<le> hi)"
  by (auto simp: optional_str_def or_default_def
      split: field.splits option.splits sum.splits dest: constrained_str_Inr)

lemma TaskCreate_validate_valid:
  assumes "TaskCreate_validate body = Inr task_data"
  shows "TaskCreate_valid task_data"
proof -
  from assms obtain t d s p u where
    v: "required_str ''title'' 1 255 (TaskCreate_body.title body) = Inr t"
       "optional_str ''description'' 0 1000 (TaskCreate_body.description body) = Inr d"
       "default_str ''status'' ''pending'' 50 (TaskCreate_body.status body) = Inr s"
       "default_str ''priority'' ''medium'' 20 (TaskCreate_body.priority body) = Inr p"
       "optional_str ''user_id'' 0 100 (TaskCreate_body.user_id body) = Inr u"
    and td: "task_data = \<lparr>TaskCreate.title = t, description = or_default None d, status = s,
               priority = p, user_id = or_default None u,
               external_id = or_default None (TaskCreate_body.external_id body)\<rparr>"
    unfolding TaskCreate_validate_def by (auto split: sum.splits)
  show ?thesis
    using required_str_Inr[OF v(1)] optional_str_Inr[OF v(2)] default_str_Inr[OF v(3)]
      default_str_Inr[OF v(4)] optional_str_Inr[OF v(5)]
    by (simp add: TaskCreate_valid_def td)
qed

lemma validation_exception_handler_detail:
  "detail (validation_exception_handler errs) = errs"
  by (induction errs) (simp_all add: validation_exception_handler_def)

text \<open>
  C7. For every \<open>createTask\<close> body that violates one or more field constraints, the
  request ends in a validation failure before the handler runs and the store is unchanged;
  the error translator answers it with status 422 and \<open>error_code\<close> \<open>VALIDATION_ERROR\<close>, and
  the entries of \<open>detail\<close> report exactly the violated constraints, every one of them.
\<close>

theorem create_task_validation_reports_all:
  assumes "spec_violations body \<noteq> []"
  shows "post_tasks now1 now2 up ins body w = (RequestValidationError (TaskCreate_errors body), w)
     \<and> JSONResponse.status_code (validation_exception_handler (TaskCreate_errors body)) = 422
     \<and> error_code (validation_exception_handler (TaskCreate_errors body)) = ''VALIDATION_ERROR''
     \<and> map reported (detail (validation_exception_handler (TaskCreate_errors body)))
         = spec_violations body"
proof -
  from assms have "TaskCreate_errors body \<noteq> []"
    using reported_TaskCreate_errors[of body] by auto
  then have "TaskCreate_validate body = Inl (TaskCreate_errors body)"
    by (rule TaskCreate_validate_Inl)
  then show ?thesis
    by (simp add: post_tasks_def validation_exception_handler_detail reported_TaskCreate_errors)
       (simp add: validation_exception_handler_def)
qed

lemma spec_violations_create_body1:
  "spec_violations create_body1 = [(''title'', ''string_too_short''), (''status'', ''string_type'')]"
  by (simp add: spec_violations_def create_body1_def shorter_than_def longer_than_def)

theorem create_task_validation_reports_all_witness:
  "spec_violations create_body1 \<noteq> []
   \<and> fst (post_tasks 5 6 (Raises (TimeoutException ''timed out'')) (Inr 2) create_body1 world1)
       = RequestValidationError (TaskCreate_errors create_body1)
   \<and> snd (post_tasks 5 6 (Raises (TimeoutException ''timed out'')) (Inr 2) create_body1 world1) = world1
   \<and> JSONResponse.status_code (validation_exception_handler (TaskCreate_errors create_body1)) = 422
   \<and> error_code (validation_exception_handler (TaskCreate_errors create_body1)) = ''VALIDATION_ERROR''
   \<and> map reported (detail (validation_exception_handler (TaskCreate_errors create_body1)))
       = [(''title'', ''string_too_short''), (''status'', ''string_type'')]"
proof -
  have a: "spec_violations create_body1 \<noteq> []"
    by (simp add: spec_violations_create_body1)
  show ?thesis
    using a create_task_validation_reports_all[OF a, of 5 6 "Raises (TimeoutException ''timed out'')" "Inr 2" world1]
    by (simp add: spec_violations_create_body1)
qed

section \<open>Sequences of requests\<close>

lemma post_tasks_inserted:
  assumes "TaskCreate_validate body = Inr td" and "\<not> stored w i"
  shows "post_tasks n1 n2 up (Inr i) body w =
      (Returned \<lparr>TaskResponse.title = TaskCreate.title td, description = TaskCreate.description td,
             status = TaskCreate.status td, priority = TaskCreate.priority td, id = i,
             external_id = TaskCreate.external_id td, user_id = TaskCreate.user_id td,
             created_at = n1, updated_at = n2, completed_at = None\<rparr>,
       w\<lparr>table := table w @
            [(Task_model_validate n1 n2 td)
               \<lparr>external_api_data := enriched up (TaskCreate.external_id td),
                Task.id := Some i\<rparr>],
          calls := calls w @ called (TaskCreate.external_id td)\<rparr>)"
  using assms(1)
    create_task_inserted[OF TaskCreate_validate_valid[OF assms(1)] assms(2), of n1 n2 up]
  by (simp add: post_tasks_def handled_def)

lemma row_ok_new:
  "TaskCreate_valid td \<Longrightarrow>
     row_ok ((Task_model_validate n1 n2 td)\<lparr>external_api_data := x, Task.id := Some i\<rparr>)"
  by (simp add: row_ok_def TaskResponse_of_new)

text \<open>
  What a request does to the world: rows are removed, at most one row is appended, under
  a key that no stored row has, and calls are recorded.
\<close>

lemma step_shape:
  "\<exists>P new cs.
      step r w = w\<lparr>table := filter P (table w) @ new, calls := calls w @ cs\<rparr>
      \<and> length new \<le> 1
      \<and> (\<forall>t\<in>set new. Task.completed_at t = None \<and> row_ok t
            \<and> (\<exists>i. Task.id t = Some i \<and> \<not> stored w i))
      \<and> map Some (created r w) = map Task.id new"
proof -
  have same: "\<exists>P new cs.
      w = w\<lparr>table := filter P (table w) @ new, calls := calls w @ cs\<rparr>
      \<and> length new \<le> 1
      \<and> (\<forall>t\<in>set new. Task.completed_at t = None \<and> row_ok t
            \<and> (\<exists>i. Task.id t = Some i \<and> \<not> stored w i))
      \<and> map Some [] = map Task.id new"
    by (rule exI[of _ "\<lambda>t. True"], rule exI[of _ "[]"], rule exI[of _ "[]"]) simp
  have calls_only: "\<exists>P new cs'.
      w\<lparr>calls := calls w @ cs\<rparr> = w\<lparr>table := filter P (table w) @ new, calls := calls w @ cs'\<rparr>
      \<and> length new \<le> 1
      \<and> (\<forall>t\<in>set new. Task.completed_at t = None \<and> row_ok t
            \<and> (\<exists>i. Task.id t = Some i \<and> \<not> stored w i))
      \<and> map Some [] = map Task.id new" for cs
    by (rule exI[of _ "\<lambda>t. True"], rule exI[of _ "[]"], rule exI[of _ cs]) simp
  show ?thesis
  proof (cases r)
    case (Post n1 n2 up ins body)
    show ?thesis
    proof (cases "TaskCreate_validate body")
      case (Inl errs)
      with Post same show ?thesis by (simp add: post_tasks_def)
    next
      case (Inr td)
      have valid: "TaskCreate_valid td" using Inr by (rule TaskCreate_validate_valid)
      from valid show ?thesis
      proof (cases rule: create_task_cases[where ?n1.0 = n1 and ?n2.0 = n2 and up = up
            and ins = ins and w = w])
        case refused
        with Post Inr calls_only[of "called (TaskCreate.external_id td)"] show ?thesis
          by (simp add: post_tasks_def handled_def)
      next
        case (inserted i)
        let ?row = "(Task_model_validate n1 n2 td)
               \<lparr>external_api_data := enriched up (TaskCreate.external_id td),
                Task.id := Some i\<rparr>"
        have "row_ok ?row" using valid by (rule row_ok_new)
        moreover have "Task.completed_at ?row = None" "Task.id ?row = Some i"
          by (simp_all add: Task_model_validate_def)
        ultimately show ?thesis
          unfolding Post using inserted(2)
          by (intro exI[of _ "\<lambda>t. True"] exI[of _ "[?row]"]
                exI[of _ "called (TaskCreate.external_id td)"])
             (simp add: post_tasks_def handled_def Inr inserted(3))
      qed
    qed
  next
    case (Get task_id)
    with same show ?thesis by simp
  next
    case (Put task_id body)
    with same show ?thesis by (simp add: put_task_unchanged)
  next
    case (Delete task_id)
    show ?thesis
    proof (cases "session_get w task_id")
      case None
      with Delete same show ?thesis
        by (simp add: delete_task_def delete_task_try_def)
    next
      case (Some db_task)
      with Delete show ?thesis
        by (intro exI[of _ "\<lambda>row. Task.id row \<noteq> Task.id db_task"] exI[of _ "[]"] exI[of _ "[]"])
           (simp add: delete_task_def delete_task_try_def commit_deleted_def)
    qed
  next
    case (List skip limit sf pf)
    with same show ?thesis by simp
  qed
qed

lemma step_rows_ok: "rows_ok w \<Longrightarrow> rows_ok (step r w)"
  using step_shape[of r w]
  by (fastforce simp: rows_ok_def list_all_iff)

lemma distinct_map_filter_append:
  assumes "distinct (map f xs)" and "length new \<le> 1"
    and "\<forall>t\<in>set new. f t \<notin> f ` set xs"
  shows "distinct (map f (filter P xs @ new))"
proof -
  have "distinct (map f (filter P xs))"
    using assms(1) by (rule distinct_map_filter)
  moreover have "distinct (map f new)"
    using assms(2) by (cases new) simp_all
  moreover have "f ` set (filter P xs) \<inter> f ` set new = {}"
    using assms(3) by (fastforce simp: image_iff)
  ultimately show ?thesis by simp
qed

lemma step_unique_ids: "unique_ids w \<Longrightarrow> unique_ids (step r w)"
proof -
  assume u: "unique_ids w"
  obtain P new cs where
    s: "step r w = w\<lparr>table := filter P (table w) @ new, calls := calls w @ cs\<rparr>"
    and l: "length new \<le> 1"
    and n: "\<forall>t\<in>set new. Task.completed_at t = None \<and> row_ok t
              \<and> (\<exists>i. Task.id t = Some i \<and> \<not> stored w i)"
    using step_shape[of r w] by blast
  from n have "\<forall>t\<in>set new. Task.id t \<notin> Task.id ` set (table w)"
    by (fastforce simp: stored_iff)
  with u l have "distinct (map Task.id (filter P (table w) @ new))"
    unfolding unique_ids_def by (intro distinct_map_filter_append)
  then show ?thesis by (simp add: s unique_ids_def)
qed


lemma rows_ok_run: "rows_ok (run rs initial)"
proof -
  have "rows_ok w \<Longrightarrow> rows_ok (run rs w)" for w
    by (induction rs arbitrary: w) (simp_all add: step_rows_ok)
  moreover have "rows_ok initial"
    by (simp add: rows_ok_def initial_def)
  ultimately show ?thesis .
qed

lemma unique_ids_run: "unique_ids (run rs initial)"
proof -
  have "unique_ids w \<Longrightarrow> unique_ids (run rs w)" for w
    by (induction rs arbitrary: w) (simp_all add: step_unique_ids)
  moreover have "unique_ids initial"
    by (simp add: unique_ids_def initial_def)
  ultimately show ?thesis .
qed

text \<open>
  C6. For every valid \<open>createTask\<close> input, \<open>create_task\<close> returns when the database accepts
  the INSERT, and the task it returns has as \<open>created_at\<close> and \<open>updated_at\<close> the two
  readings of the clock taken while the record is built, \<open>created_at\<close> the first and
  \<open>updated_at\<close> the second (equal when the two readings are); its \<open>id\<close> is the primary key
  that the database assigned at this INSERT, it is the id of no task stored before, and
  the ids of the stored tasks stay pairwise distinct. Whether the key of a deleted task is
  ever assigned again is the database's matter, not the repository's.
\<close>

theorem create_task_timestamps_and_unique_id:
  assumes "TaskCreate_valid task_data"
  shows "(\<forall>i. ins = Inr i \<and> \<not> stored w i \<longrightarrow>
            (\<exists>response. fst (create_task now1 now2 up ins task_data w) = Inr response))
     \<and> (\<forall>response w'.
           create_task now1 now2 up ins task_data w = (Inr response, w') \<longrightarrow>
             TaskResponse.created_at response = now1
             \<and> TaskResponse.updated_at response = now2
             \<and> ins = Inr (TaskResponse.id response)
             \<and> (\<forall>t\<in>set (table w). Task.id t \<noteq> Some (TaskResponse.id response))
             \<and> (\<exists>row. table w' = table w @ [row]
                    \<and> Task.id row = Some (TaskResponse.id response))
             \<and> (unique_ids w \<longrightarrow> unique_ids w'))"
proof -
  have ex: "\<exists>response. fst (create_task now1 now2 up ins task_data w) = Inr response"
    if "ins = Inr i" and "\<not> stored w i" for i
    using that by (simp add: create_task_inserted[OF assms])
  have post: "TaskResponse.created_at response = now1
             \<and> TaskResponse.updated_at response = now2
             \<and> ins = Inr (TaskResponse.id response)
             \<and> (\<forall>t\<in>set (table w). Task.id t \<noteq> Some (TaskResponse.id response))
             \<and> (\<exists>row. table w' = table w @ [row]
                    \<and> Task.id row = Some (TaskResponse.id response))
             \<and> (unique_ids w \<longrightarrow> unique_ids w')"
    if r: "create_task now1 now2 up ins task_data w = (Inr response, w')" for response w'
    using assms
  proof (cases rule: create_task_cases[where ?n1.0 = now1 and ?n2.0 = now2 and up = up
        and ins = ins and w = w])
    case refused
    with r show ?thesis by simp
  next
    case (inserted i)
    from inserted(2) have free: "\<forall>t\<in>set (table w). Task.id t \<noteq> Some i"
      by (auto simp: stored_iff)
    then have "Some i \<notin> Task.id ` set (table w)" by force
    with r inserted(1,3) free show ?thesis
      by (auto simp: unique_ids_def)
  qed
  from ex post show ?thesis by blast
qed

lemma TaskCreate_validate_create_body2:
  "TaskCreate_validate create_body2 =
     Inr \<lparr>TaskCreate.title = ''Test Task'', description = Some ''Test Description'',
          status = ''pending'', priority = ''medium'', user_id = Some ''user123'',
          external_id = None\<rparr>"
  by (simp add: TaskCreate_validate_def create_body2_def required_str_def optional_str_def
      default_str_def constrained_str_def or_default_def)

theorem create_task_timestamps_and_unique_id_witness:
  "TaskCreate_valid create1
   \<and> \<not> stored world1 2
   \<and> table world1 = [task1] \<and> Task.id task1 = Some 1 \<and> unique_ids world1
   \<and> (\<exists>response w'.
         create_task 5 6 (Raises (TimeoutException ''timed out'')) (Inr 2) create1 world1
           = (Inr response, w')
         \<and> TaskResponse.created_at response = 5
         \<and> TaskResponse.updated_at response = 6
         \<and> TaskResponse.id response = 2
         \<and> (\<exists>row. table w' = [task1, row] \<and> Task.id row = Some 2)
         \<and> unique_ids w')"
proof -
  have a: "TaskCreate_valid create1" by (rule TaskCreate_valid_create1)
  have t: "table world1 = [task1]" "Task.id task1 = Some 1" "unique_ids world1"
    by (simp_all add: world1_def task1_def unique_ids_def)
  obtain response w' where
    r: "create_task 5 6 (Raises (TimeoutException ''timed out'')) (Inr 2) create1 world1
          = (Inr response, w')"
    using create_task_timestamps_and_unique_id[OF a, of "Inr 2" world1 5 6
        "Raises (TimeoutException ''timed out'')"] not_stored_world1
    by (metis prod.collapse)
  show ?thesis
    using a t not_stored_world1 r
      create_task_timestamps_and_unique_id[OF a, of "Inr 2" world1 5 6
        "Raises (TimeoutException ''timed out'')"]
    by auto
qed

text \<open>
  The two readings need not be equal: with the clock at 5 and then at 6, the task returned
  has \<open>created_at = 5\<close> and \<open>updated_at = 6\<close>.
\<close>

theorem create_task_created_at_differs_from_updated_at:
  "TaskCreate_valid create1
   \<and> fst (create_task 5 6 (Raises (TimeoutException ''timed out'')) (Inr 1) create1 initial)
       = Inr \<lparr>TaskResponse.title = ''Task with External API Failure'', description = None,
              status = ''pending'', priority = ''medium'', id = 1, external_id = Some 999,
              user_id = Some ''user456'', created_at = 5, updated_at = 6, completed_at = None\<rparr>
   \<and> TaskResponse.created_at
        \<lparr>TaskResponse.title = ''Task with External API Failure'', description = None,
              status = ''pending'', priority = ''medium'', id = 1, external_id = Some 999,
              user_id = Some ''user456'', created_at = 5, updated_at = 6, completed_at = None\<rparr>
     \<noteq> TaskResponse.updated_at
        \<lparr>TaskResponse.title = ''Task with External API Failure'', description = None,
              status = ''pending'', priority = ''medium'', id = 1, external_id = Some 999,
              user_id = Some ''user456'', created_at = 5, updated_at = 6, completed_at = None\<rparr>"
proof -
  have "\<not> stored initial 1" by (simp add: stored_def initial_def)
  then show ?thesis
    by (simp add: create_task_inserted[OF TaskCreate_valid_create1] TaskCreate_valid_create1)
       (simp add: create1_def)
qed

text \<open>
  Nothing in the repository keeps the database from giving the key of a deleted task to a
  later one: when it answers 1 again after task 1 has been deleted (as an engine that
  assigns the largest stored key plus one does), the second task is created under id 1 too.
\<close>

lemma deleted_id_assigned_again:
  "created_ids
     [Post 1 2 (Raises (TimeoutException ''timed out'')) (Inr 1) create_body2,
      Delete 1,
      Post 3 4 (Raises (TimeoutException ''timed out'')) (Inr 1) create_body2] initial = [1, 1]"
proof -
  let ?up = "Raises (TimeoutException ''timed out'')"
  have a: "\<not> stored initial 1" by (simp add: stored_def initial_def)
  have p1: "fst (post_tasks 1 2 ?up (Inr 1) create_body2 initial)
              = Returned \<lparr>TaskResponse.title = ''Test Task'',
                  description = Some ''Test Description'', status = ''pending'',
                  priority = ''medium'', id = 1, external_id = None,
                  user_id = Some ''user123'', created_at = 1, updated_at = 2,
                  completed_at = None\<rparr>"
    by (simp add: post_tasks_inserted[OF TaskCreate_validate_create_body2 a])
  have "table (snd (post_tasks 1 2 ?up (Inr 1) create_body2 initial))
          = [(Task_model_validate 1 2
                \<lparr>TaskCreate.title = ''Test Task'', description = Some ''Test Description'',
                 status = ''pending'', priority = ''medium'', user_id = Some ''user123'',
                 external_id = None\<rparr>)
               \<lparr>external_api_data := None, Task.id := Some 1\<rparr>]"
    by (simp add: post_tasks_inserted[OF TaskCreate_validate_create_body2 a] enriched_def)
       (simp add: initial_def)
  then have d: "table (snd (delete_task 1 (snd (post_tasks 1 2 ?up (Inr 1) create_body2 initial))))
          = []"
    by (simp add: delete_task_def delete_task_try_def session_get_def commit_deleted_def)
  then have b: "\<not> stored (snd (delete_task 1
                   (snd (post_tasks 1 2 ?up (Inr 1) create_body2 initial)))) 1"
    by (simp add: stored_def)
  have p2: "fst (post_tasks 3 4 ?up (Inr 1) create_body2
                   (snd (delete_task 1 (snd (post_tasks 1 2 ?up (Inr 1) create_body2 initial)))))
              = Returned \<lparr>TaskResponse.title = ''Test Task'',
                  description = Some ''Test Description'', status = ''pending'',
                  priority = ''medium'', id = 1, external_id = None,
                  user_id = Some ''user123'', created_at = 3, updated_at = 4,
                  completed_at = None\<rparr>"
    by (simp add: post_tasks_inserted[OF TaskCreate_validate_create_body2 b])
  show ?thesis
    by (simp add: p1 p2)
qed

section \<open>\<open>completed_at\<close>\<close>








end
